theory Spec2Isabelle
  imports Main "HOL-Library.Word"
begin

section \<open>Diagnostics (lingo/error.cpp)\<close>

subsection \<open>Diagnostics and their printed form\<close>

text \<open>
  Objects that the code reaches through pointers (\<open>this\<close>, the entries of the
  diagnostic stack, the cursor of a token stream) are named by addresses.
\<close>

type_synonym addr = nat

text \<open>
  The enumeration \<open>Diagnostic_kind\<close> with the three enumerators that the printing
  switch names. The \<open>default\<close> branch of that switch (\<open>lingo_unreachable\<close>) is for
  values outside the enumeration, which the datatype does not have.
\<close>

datatype Diagnostic_kind = error_diag | warning_diag | note_diag

text \<open>
  A diagnostic as \<open>emit\<close> and the printing operator read it: \<open>diag.kind\<close>,
  \<open>diag.loc\<close>, \<open>diag.msg\<close>. The type of locations is declared outside the two
  source files and stays a type parameter.
\<close>

record 'l Diagnostic =
  kind :: Diagnostic_kind
  loc :: 'l
  msg :: string

text \<open>\<open>operator<<(std::ostream&, Diagnostic_kind)\<close>: the characters written.\<close>

fun print_Diagnostic_kind :: "Diagnostic_kind \<Rightarrow> string" where
  "print_Diagnostic_kind error_diag = ''error''"
| "print_Diagnostic_kind warning_diag = ''warning''"
| "print_Diagnostic_kind note_diag = ''note''"

text \<open>
  \<open>operator<<(std::ostream&, Diagnostic const&)\<close>:
  \<open>os << diag.kind << ':' << diag.loc << ": " << diag.msg\<close>. The printing of a
  location is declared elsewhere and is the parameter \<open>pl\<close>.
\<close>

definition print_Diagnostic :: "('l \<Rightarrow> string) \<Rightarrow> 'l Diagnostic \<Rightarrow> string" where
  "print_Diagnostic pl d =
     print_Diagnostic_kind (kind d) @ '':'' @ pl (loc d) @ '': '' @ msg d"

text \<open>The line feed that follows every diagnostic written to \<open>std::cerr\<close>.\<close>

definition newline :: string where
  "newline = [CHR 0x0A]"

subsection \<open>The diagnostic context\<close>

text \<open>
  The C++ type \<open>int\<close> of the counter and of the result of \<open>error_count\<close>: 32 bits
  in two's complement. \<open>sint\<close> reads the value. Addition on the type wraps around, which
  is what \<open>++errs_\<close> does on the machine when the counter is at its largest value.
\<close>

type_synonym c_int = "32 word"

text \<open>
  \<open>Diagnostic_context\<close> is a vector of diagnostics (it calls its own \<open>push_back\<close>
  and \<open>clear\<close> and iterates over \<open>*this\<close>) with the members \<open>suppress_\<close> and
  \<open>errs_\<close> (here \<open>suppress_flag\<close> and \<open>errs\<close>: a name of the logic cannot end in an
  underscore). The counter \<open>errs_\<close> is what \<open>int error_count()\<close> returns, an \<open>int\<close>.
\<close>

record 'l Diagnostic_context =
  vec :: "'l Diagnostic list"
  suppress_flag :: bool
  errs :: c_int

text \<open>
  The member initialisers of the constructor, \<open>suppress_(suppress), errs_(0)\<close>, over
  an empty vector. The push onto the stack is in \<open>Diagnostic_context_ctor\<close> below.
\<close>

definition Diagnostic_context_init :: "bool \<Rightarrow> 'l Diagnostic_context" where
  "Diagnostic_context_init suppress = \<lparr>vec = [], suppress_flag = suppress, errs = 0\<rparr>"

text \<open>
  A member function works on its object and on \<open>std::cerr\<close>; the pair of the two is
  the state it transforms. The stream is the text written to it so far.
\<close>

type_synonym 'l ctx_state = "'l Diagnostic_context \<times> string"

text \<open>
  \<open>Diagnostic_context::emit(Diagnostic const&)\<close>: count an error, then store the
  diagnostic or write it, by \<open>suppress_\<close>.
\<close>

definition emit :: "('l \<Rightarrow> string) \<Rightarrow> 'l Diagnostic \<Rightarrow> 'l ctx_state \<Rightarrow> 'l ctx_state" where
  "emit pl diag = (\<lambda>(c, os).
     let c1 = (if kind diag = error_diag then c\<lparr>errs := errs c + 1\<rparr> else c)
     in if suppress_flag c1
        then (c1\<lparr>vec := vec c1 @ [diag]\<rparr>, os)
        else (c1, os @ print_Diagnostic pl diag @ newline))"

text \<open>\<open>Diagnostic_context::reset()\<close>: \<open>clear(); errs_ = 0;\<close>\<close>

definition reset :: "'l Diagnostic_context \<Rightarrow> 'l Diagnostic_context" where
  "reset c = c\<lparr>vec := [], errs := 0\<rparr>"

text \<open>
  \<open>Diagnostic_context::emit()\<close>, the form without argument: when suppressing, the
  range-for loop over \<open>*this\<close> writes each stored diagnostic and a line feed. The loop
  is the fold over the vector, front to back.
\<close>

definition write_diag :: "('l \<Rightarrow> string) \<Rightarrow> 'l Diagnostic \<Rightarrow> string \<Rightarrow> string" where
  "write_diag pl diag os = os @ print_Diagnostic pl diag @ newline"

definition emit_saved :: "('l \<Rightarrow> string) \<Rightarrow> 'l ctx_state \<Rightarrow> 'l ctx_state" where
  "emit_saved pl = (\<lambda>(c, os).
     if suppress_flag c then (c, fold (write_diag pl) (vec c) os) else (c, os))"

text \<open>
  Modelled from the spec: \<open>Diagnostic_context::errors()\<close> is defined in the header
  error.hpp, which is not among the sources; \<open>error_count\<close> "reads the top context's
  counter".
\<close>

definition errors :: "'l Diagnostic_context \<Rightarrow> c_int" where
  "errors c = errs c"

subsection \<open>The diagnostic stack and the reporting functions\<close>

text \<open>
  The state of the process that error.cpp touches: the stack \<open>diags_\<close> of pointers to
  contexts (its top is the head of the list), the contexts that are alive, by address,
  the text written to \<open>std::cerr\<close>, and whether the function-local static \<open>root_\<close>
  of \<open>init_diagnostics\<close> has been initialised.
\<close>

record 'l world =
  diags :: "addr list"
  heap :: "addr \<rightharpoonup> 'l Diagnostic_context"
  cerr :: string
  root_done :: bool

text \<open>
  \<open>Diagnostic_context::Diagnostic_context(bool suppress)\<close> for the object at
  \<open>this\<close>: initialise the members, then \<open>diags_.push(this)\<close>.
\<close>

definition Diagnostic_context_ctor :: "addr \<Rightarrow> bool \<Rightarrow> 'l world \<Rightarrow> 'l world" where
  "Diagnostic_context_ctor this suppress w =
     w\<lparr>heap := (heap w)(this \<mapsto> Diagnostic_context_init suppress),
       diags := this # diags w\<rparr>"

text \<open>
  \<open>Diagnostic_context::~Diagnostic_context()\<close> for the object at \<open>this\<close>:
  \<open>diags_.pop()\<close> removes whatever is on top (the destructor does not compare it with
  \<open>this\<close>), and the object ends. Popping the empty stack has no defined behaviour:
  \<open>None\<close>.
\<close>

definition Diagnostic_context_dtor :: "addr \<Rightarrow> 'l world \<Rightarrow> 'l world option" where
  "Diagnostic_context_dtor this w =
     (case diags w of
        [] \<Rightarrow> None
      | p # rest \<Rightarrow> Some (w\<lparr>diags := rest, heap := (heap w)(this := None)\<rparr>))"

text \<open>
  \<open>diags_.top()\<close> followed by the dereference: the address on top of the
  stack and the context alive there. An empty stack or a pointer to a context that has
  ended gives \<open>None\<close>.
\<close>

definition top_context :: "'l world \<Rightarrow> (addr \<times> 'l Diagnostic_context) option" where
  "top_context w =
     (case diags w of
        [] \<Rightarrow> None
      | p # rest \<Rightarrow> (case heap w p of None \<Rightarrow> None | Some c \<Rightarrow> Some (p, c)))"

text \<open>
  \<open>init_diagnostics()\<close>: its body is the declaration
  \<open>static Diagnostic_context root_;\<close>, which constructs \<open>root_\<close> the first time
  control passes through it and does nothing afterwards. The static object has one
  address for the whole run, \<open>root_ctx\<close>; the constructor's default argument is declared
  in error.hpp and is the parameter \<open>dflt\<close>.
\<close>

definition root_ctx :: addr where
  "root_ctx = 0"

definition init_diagnostics :: "bool \<Rightarrow> 'l world \<Rightarrow> 'l world" where
  "init_diagnostics dflt w =
     (if root_done w then w
      else Diagnostic_context_ctor root_ctx dflt (w\<lparr>root_done := True\<rparr>))"

text \<open>\<open>emit_diagnostics()\<close>: \<open>diags_.top()->emit()\<close>.\<close>

definition emit_diagnostics :: "('l \<Rightarrow> string) \<Rightarrow> 'l world \<Rightarrow> 'l world option" where
  "emit_diagnostics pl w =
     (case top_context w of
        None \<Rightarrow> None
      | Some (p, c) \<Rightarrow>
          (case emit_saved pl (c, cerr w) of
             (c', os) \<Rightarrow> Some (w\<lparr>heap := (heap w)(p \<mapsto> c'), cerr := os\<rparr>)))"

text \<open>\<open>reset_diagnostics()\<close>: \<open>diags_.top()->reset()\<close>.\<close>

definition reset_diagnostics :: "'l world \<Rightarrow> 'l world option" where
  "reset_diagnostics w =
     (case top_context w of
        None \<Rightarrow> None
      | Some (p, c) \<Rightarrow> Some (w\<lparr>heap := (heap w)(p \<mapsto> reset c)\<rparr>))"

text \<open>\<open>error_count()\<close>: \<open>diags_.top()->errors()\<close>.\<close>

definition error_count :: "'l world \<Rightarrow> c_int option" where
  "error_count w =
     (case top_context w of None \<Rightarrow> None | Some (p, c) \<Rightarrow> Some (errors c))"

text \<open>
  \<open>diags_.top()->emit(diag)\<close>, the common body of \<open>error\<close> and \<open>warning\<close>.
\<close>

definition emit_top :: "('l \<Rightarrow> string) \<Rightarrow> 'l Diagnostic \<Rightarrow> 'l world \<Rightarrow> 'l world option" where
  "emit_top pl diag w =
     (case top_context w of
        None \<Rightarrow> None
      | Some (p, c) \<Rightarrow>
          (case emit pl diag (c, cerr w) of
             (c', os) \<Rightarrow> Some (w\<lparr>heap := (heap w)(p \<mapsto> c'), cerr := os\<rparr>)))"

text \<open>\<open>error(loc, msg)\<close>: \<open>diags_.top()->emit({error_diag, loc, msg})\<close>.\<close>

definition error :: "('l \<Rightarrow> string) \<Rightarrow> 'l \<Rightarrow> string \<Rightarrow> 'l world \<Rightarrow> 'l world option" where
  "error pl l m w = emit_top pl \<lparr>kind = error_diag, loc = l, msg = m\<rparr> w"


section \<open>Tokens (lingo/token.hpp)\<close>

subsection \<open>Token kinds\<close>

text \<open>
  \<open>using Token_kind = int\<close>. The kinds are only compared, never computed with, and
  every value of the machine type is an integer, so the type is \<open>int\<close>.
\<close>

type_synonym Token_kind = int

text \<open>The \<open>constexpr\<close> kinds, with the values of the header.\<close>

definition error_tok :: Token_kind where
  "error_tok = 0"

definition lparen_tok :: Token_kind where
  "lparen_tok = 1"

definition rparen_tok :: Token_kind where
  "rparen_tok = 2"

definition lbrace_tok :: Token_kind where
  "lbrace_tok = 3"

definition rbrace_tok :: Token_kind where
  "rbrace_tok = 4"

definition lbrack_tok :: Token_kind where
  "lbrack_tok = 5"

definition rbrack_tok :: Token_kind where
  "rbrack_tok = 6"

definition dot_tok :: Token_kind where
  "dot_tok = 7"

definition comma_tok :: Token_kind where
  "comma_tok = 8"

definition semicolon_tok :: Token_kind where
  "semicolon_tok = 9"

definition colon_tok :: Token_kind where
  "colon_tok = 10"

definition equal_tok :: Token_kind where
  "equal_tok = 11"

definition plus_tok :: Token_kind where
  "plus_tok = 12"

definition minus_tok :: Token_kind where
  "minus_tok = 13"

definition star_tok :: Token_kind where
  "star_tok = 14"

definition slash_tok :: Token_kind where
  "slash_tok = 15"

definition percent_tok :: Token_kind where
  "percent_tok = 16"

definition amp_tok :: Token_kind where
  "amp_tok = 17"

definition bar_tok :: Token_kind where
  "bar_tok = 18"

definition caret_tok :: Token_kind where
  "caret_tok = 19"

definition tilde_tok :: Token_kind where
  "tilde_tok = 20"

definition bang_tok :: Token_kind where
  "bang_tok = 21"

definition lt_tok :: Token_kind where
  "lt_tok = 22"

definition gt_tok :: Token_kind where
  "gt_tok = 23"

definition minus_gt_tok :: Token_kind where
  "minus_gt_tok = 24"

definition eq_gt_tok :: Token_kind where
  "eq_gt_tok = 25"

definition lt_lt_tok :: Token_kind where
  "lt_lt_tok = 26"

definition gt_gt_tok :: Token_kind where
  "gt_gt_tok = 27"

definition eq_eq_tok :: Token_kind where
  "eq_eq_tok = 28"

definition bang_eq_tok :: Token_kind where
  "bang_eq_tok = 29"

definition lt_eq_tok :: Token_kind where
  "lt_eq_tok = 30"

definition gt_eq_tok :: Token_kind where
  "gt_eq_tok = 31"

definition amp_amp_tok :: Token_kind where
  "amp_amp_tok = 32"

definition bar_bar_tok :: Token_kind where
  "bar_bar_tok = 33"

definition dot_dot_tok :: Token_kind where
  "dot_dot_tok = 34"

definition identifier_tok :: Token_kind where
  "identifier_tok = 50"

definition boolean_tok :: Token_kind where
  "boolean_tok = 51"

definition binary_integer_tok :: Token_kind where
  "binary_integer_tok = 52"

definition decimal_integer_tok :: Token_kind where
  "decimal_integer_tok = 53"

definition octal_integer_tok :: Token_kind where
  "octal_integer_tok = 54"

definition hexadecimal_integer_tok :: Token_kind where
  "hexadecimal_integer_tok = 55"

text \<open>The punctuation kinds of the header, \<open>lparen_tok\<close> to \<open>dot_dot_tok\<close>.\<close>

definition punctuation_toks :: "Token_kind list" where
  "punctuation_toks =
     [lparen_tok, rparen_tok, lbrace_tok, rbrace_tok,
      lbrack_tok, rbrack_tok, dot_tok, comma_tok,
      semicolon_tok, colon_tok, equal_tok, plus_tok,
      minus_tok, star_tok, slash_tok, percent_tok,
      amp_tok, bar_tok, caret_tok, tilde_tok,
      bang_tok, lt_tok, gt_tok, minus_gt_tok,
      eq_gt_tok, lt_lt_tok, gt_gt_tok, eq_eq_tok,
      bang_eq_tok, lt_eq_tok, gt_eq_tok, amp_amp_tok,
      bar_bar_tok, dot_dot_tok]"

text \<open>
  \<open>is_integer(Token_kind k)\<close>:
  \<open>binary_integer_tok <= k && k <= hexadecimal_integer_tok\<close>.
\<close>

definition is_integer :: "Token_kind \<Rightarrow> bool" where
  "is_integer k \<longleftrightarrow> binary_integer_tok \<le> k \<and> k \<le> hexadecimal_integer_tok"

subsection \<open>The class Token\<close>

text \<open>
  The members \<open>loc_\<close>, \<open>kind_\<close> and \<open>sym_\<close> (here \<open>t_loc\<close>, \<open>t_kind\<close>,
  \<open>t_sym\<close>). The symbol pointer is an address, or \<open>None\<close> while it has not been
  given a value. The class \<open>Location\<close> is declared in location.hpp, outside the
  sources, and is a type parameter.
\<close>

record 'l Token =
  t_loc :: 'l
  t_kind :: Token_kind
  t_sym :: "addr option"

text \<open>
  \<open>Token() : loc_(), kind_(error_tok)\<close>. The default constructor does not initialise
  \<open>sym_\<close>. The value-initialised \<open>Location\<close> is the parameter \<open>l0\<close>.
\<close>

definition Token_default :: "'l \<Rightarrow> 'l Token" where
  "Token_default l0 = \<lparr>t_loc = l0, t_kind = error_tok, t_sym = None\<rparr>"

text \<open>The observers \<open>location()\<close> and \<open>kind()\<close>.\<close>

definition Token_location :: "'l Token \<Rightarrow> 'l" where
  "Token_location t = t_loc t"

definition Token_kind_of :: "'l Token \<Rightarrow> Token_kind" where
  "Token_kind_of t = t_kind t"

text \<open>\<open>explicit operator bool() const { return kind_ != error_tok; }\<close>\<close>

definition Token_bool :: "'l Token \<Rightarrow> bool" where
  "Token_bool t \<longleftrightarrow> t_kind t \<noteq> error_tok"

text \<open>\<open>is_integer(Token const& k)\<close>: \<open>is_integer(k.kind())\<close>.\<close>

definition is_integer_Token :: "'l Token \<Rightarrow> bool" where
  "is_integer_Token t \<longleftrightarrow> is_integer (Token_kind_of t)"

subsection \<open>The token stream\<close>

text \<open>
  A stream holds two pointers into a token buffer that it does not own: \<open>first_\<close>,
  the cursor, and \<open>last_\<close>, past the end (here \<open>first_p\<close> and \<open>last_p\<close>). The
  memory that holds tokens is a map from addresses, counted in tokens, to tokens.
\<close>

record Token_stream =
  first_p :: addr
  last_p :: addr

type_synonym 'l token_mem = "addr \<rightharpoonup> 'l Token"

text \<open>\<open>Token_stream(Token const* f, Token const* l) : first_(f), last_(l)\<close>\<close>

definition Token_stream_ctor :: "addr \<Rightarrow> addr \<Rightarrow> Token_stream" where
  "Token_stream_ctor f l = \<lparr>first_p = f, last_p = l\<rparr>"

text \<open>
  A \<open>Token_list\<close> (a \<open>std::vector<Token>\<close>) whose elements \<open>toks\<close> lie at
  \<open>data\<close> onwards: the memory it occupies, and
  \<open>Token_stream(Token_list const& toks)\<close>, which delegates to
  \<open>Token_stream(toks.data(), toks.data() + toks.size())\<close>.
\<close>

definition vector_mem :: "addr \<Rightarrow> 'l Token list \<Rightarrow> 'l token_mem" where
  "vector_mem data toks =
     (\<lambda>a. if data \<le> a \<and> a < data + length toks then Some (toks ! (a - data)) else None)"

definition Token_stream_of_list :: "addr \<Rightarrow> 'l Token list \<Rightarrow> Token_stream" where
  "Token_stream_of_list data toks = Token_stream_ctor data (data + length toks)"

text \<open>\<open>bool eof() const { return first_ == last_; }\<close>\<close>

definition eof :: "Token_stream \<Rightarrow> bool" where
  "eof ts \<longleftrightarrow> first_p ts = last_p ts"

text \<open>
  Modelled from the spec: \<open>Token_stream::peek()\<close> is only declared in token.hpp and
  its body is not among the sources. "\<open>peek()\<close> returns the current token without
  advancing (undefined/erroring if at end)": the token under the cursor, and \<open>None\<close>
  at the end of the stream or where the cursor points at no token.
\<close>

definition peek :: "'l token_mem \<Rightarrow> Token_stream \<Rightarrow> 'l Token option" where
  "peek mem ts = (if eof ts then None else mem (first_p ts))"

text \<open>
  \<open>Location location() { return eof() ? Location{} : peek().location(); }\<close>, with
  \<open>l0\<close> for \<open>Location{}\<close>.
\<close>

definition Token_stream_location :: "'l \<Rightarrow> 'l token_mem \<Rightarrow> Token_stream \<Rightarrow> 'l option" where
  "Token_stream_location l0 mem ts =
     (if eof ts then Some l0 else map_option Token_location (peek mem ts))"

section \<open>Sequences of calls\<close>




definition is_error :: "'l Diagnostic \<Rightarrow> bool" where
  "is_error d \<longleftrightarrow> kind d = error_diag"


text \<open>
  Contexts are objects with a scope: a block constructs its context on entry, runs the
  blocks nested in it one after the other, and destroys its context on exit. \<open>events\<close>
  is the sequence of constructor and destructor calls that a block makes.
\<close>

datatype scope = Scope addr bool "scope list"

datatype event = Construct addr bool | Destroy addr

fun events :: "scope \<Rightarrow> event list" where
  "events (Scope a s inner) = Construct a s # concat (map events inner) @ [Destroy a]"

text \<open>
  Running a sequence of constructor and destructor calls. Each destructor call is
  logged with the object it ran for and the pointer that its \<open>diags_.pop()\<close> removed.
\<close>

fun run :: "event list \<Rightarrow> 'l world \<Rightarrow> (addr \<times> addr) list \<Rightarrow> ('l world \<times> (addr \<times> addr) list) option" where
  "run [] w log = Some (w, log)"
| "run (Construct a s # es) w log = run es (Diagnostic_context_ctor a s w) log"
| "run (Destroy a # es) w log =
     (case diags w of
        [] \<Rightarrow> None
      | p # rest \<Rightarrow>
          (case Diagnostic_context_dtor a w of
             None \<Rightarrow> None
           | Some w' \<Rightarrow> run es w' (log @ [(a, p)])))"

text \<open>The objects destroyed by a sequence of calls, in order.\<close>

fun destroyed :: "event list \<Rightarrow> addr list" where
  "destroyed [] = []"
| "destroyed (Construct a s # es) = destroyed es"
| "destroyed (Destroy a # es) = a # destroyed es"

text \<open>
  What the log of a run is when every destructor pops the pointer to its own object.
\<close>

definition own_pops :: "event list \<Rightarrow> (addr \<times> addr) list" where
  "own_pops es = map (\<lambda>a. (a, a)) (destroyed es)"

section \<open>Properties of the diagnostic context\<close>

subsection \<open>Sequences of emitted diagnostics\<close>


lemma fold_emit_suppressed:
  "suppress_flag c \<Longrightarrow>
   fold (emit pl) ds (c, os) =
     (c\<lparr>vec := vec c @ ds, errs := errs c + of_nat (length (filter is_error ds))\<rparr>, os)"
proof (induction ds arbitrary: c)
  case Nil
  show ?case by simp
next
  case (Cons d ds)
  let ?c = "if kind d = error_diag then c\<lparr>errs := errs c + 1\<rparr> else c"
  have step: "emit pl d (c, os) = (?c\<lparr>vec := vec ?c @ [d]\<rparr>, os)"
    using Cons.prems by (simp add: emit_def Let_def)
  have sup: "suppress_flag (?c\<lparr>vec := vec ?c @ [d]\<rparr>)"
    using Cons.prems by simp
  show ?case
    by (simp add: step Cons.IH [OF sup] is_error_def)
qed

lemma fold_write_diag:
  "fold (write_diag pl) ds os = os @ concat (map (\<lambda>d. print_Diagnostic pl d @ newline) ds)"
  by (induction ds arbitrary: os) (simp_all add: write_diag_def)

lemma fold_emit_unsuppressed:
  "\<not> suppress_flag c \<Longrightarrow>
   fold (emit pl) ds (c, os) =
     (c\<lparr>errs := errs c + of_nat (length (filter is_error ds))\<rparr>,
      os @ concat (map (\<lambda>d. print_Diagnostic pl d @ newline) ds))"
proof (induction ds arbitrary: c os)
  case Nil
  show ?case by simp
next
  case (Cons d ds)
  let ?c = "if kind d = error_diag then c\<lparr>errs := errs c + 1\<rparr> else c"
  have step: "emit pl d (c, os) = (?c, os @ print_Diagnostic pl d @ newline)"
    using Cons.prems by (simp add: emit_def Let_def)
  have sup: "\<not> suppress_flag ?c"
    using Cons.prems by simp
  show ?case
    by (simp add: step Cons.IH [OF sup] is_error_def)
qed

subsection \<open>The error counter\<close>













subsection \<open>Emitting one diagnostic\<close>

text \<open>
  Claim C2. \<open>emit(diagnostic)\<close> on a suppressed context appends the diagnostic to
  the stored sequence and writes nothing; on a context that is not suppressed it writes
  the diagnostic at once, as \<open>kind:location: message\<close> followed by a line feed, and
  the stored sequence stays as it was. The suppression mode does not change.
\<close>

theorem emit_stores_or_writes:
  "(suppress_flag c \<longrightarrow>
      vec (fst (emit pl d (c, os))) = vec c @ [d] \<and> snd (emit pl d (c, os)) = os)
   \<and> (\<not> suppress_flag c \<longrightarrow>
      vec (fst (emit pl d (c, os))) = vec c \<and>
      snd (emit pl d (c, os)) =
        os @ print_Diagnostic_kind (kind d) @ '':'' @ pl (loc d) @ '': '' @ msg d @ newline)
   \<and> suppress_flag (fst (emit pl d (c, os))) = suppress_flag c"
  by (simp add: emit_def Let_def print_Diagnostic_def)

theorem emit_stores_or_writes_witness:
  "vec (fst (emit (\<lambda>n. ''f:3'') \<lparr>kind = warning_diag, loc = 3::nat, msg = ''unused''\<rparr>
          (\<lparr>vec = [], suppress_flag = True, errs = 0\<rparr>, ''log'')))
     = [\<lparr>kind = warning_diag, loc = 3, msg = ''unused''\<rparr>]
   \<and> snd (emit (\<lambda>n. ''f:3'') \<lparr>kind = warning_diag, loc = 3::nat, msg = ''unused''\<rparr>
          (\<lparr>vec = [], suppress_flag = True, errs = 0\<rparr>, ''log'')) = ''log''
   \<and> vec (fst (emit (\<lambda>n. ''f:3'') \<lparr>kind = warning_diag, loc = 3::nat, msg = ''unused''\<rparr>
          (\<lparr>vec = [], suppress_flag = False, errs = 0\<rparr>, ''log''))) = []
   \<and> snd (emit (\<lambda>n. ''f:3'') \<lparr>kind = warning_diag, loc = 3::nat, msg = ''unused''\<rparr>
          (\<lparr>vec = [], suppress_flag = False, errs = 0\<rparr>, ''log''))
     = ''logwarning:f:3: unused'' @ [CHR 0x0A]"
  using
    emit_stores_or_writes [of "\<lparr>vec = [], suppress_flag = True, errs = 0\<rparr>"
      "\<lambda>n. ''f:3''" "\<lparr>kind = warning_diag, loc = 3::nat, msg = ''unused''\<rparr>" "''log''"]
    emit_stores_or_writes [of "\<lparr>vec = [], suppress_flag = False, errs = 0\<rparr>"
      "\<lambda>n. ''f:3''" "\<lparr>kind = warning_diag, loc = 3::nat, msg = ''unused''\<rparr>" "''log''"]
  by (simp add: newline_def)

subsection \<open>Replaying the stored diagnostics\<close>

text \<open>
  Claim C3. The form \<open>emit()\<close> without argument leaves the context as it is, the error
  counter included. On a suppressed context it writes every stored diagnostic, in the
  order of the stored sequence, which is the order of insertion: after a sequence \<open>ds\<close>
  was emitted into a new suppressed context, the replay writes the lines of \<open>ds\<close> in
  that order. On a context that is not suppressed it writes nothing.
\<close>

theorem emit_saved_replays_in_order:
  "fst (emit_saved pl (c, os)) = c
   \<and> errors (fst (emit_saved pl (c, os))) = errors c
   \<and> (suppress_flag c \<longrightarrow>
        snd (emit_saved pl (c, os)) =
          os @ concat (map (\<lambda>d. print_Diagnostic pl d @ newline) (vec c)))
   \<and> (\<not> suppress_flag c \<longrightarrow> emit_saved pl (c, os) = (c, os))
   \<and> snd (emit_saved pl (fold (emit pl) ds (Diagnostic_context_init True, os))) =
        os @ concat (map (\<lambda>d. print_Diagnostic pl d @ newline) ds)
   \<and> snd (emit_saved pl (fold (emit pl) ds (Diagnostic_context_init False, os))) =
        snd (fold (emit pl) ds (Diagnostic_context_init False, os))"
proof -
  have init: "suppress_flag (Diagnostic_context_init s :: 'a Diagnostic_context) = s"
    "vec (Diagnostic_context_init s :: 'a Diagnostic_context) = []" for s
    by (simp_all add: Diagnostic_context_init_def)
  have sup: "snd (emit_saved pl (fold (emit pl) ds (Diagnostic_context_init True, os))) =
        os @ concat (map (\<lambda>d. print_Diagnostic pl d @ newline) ds)"
    by (simp add: fold_emit_suppressed init emit_saved_def fold_write_diag)
  have unsup: "snd (emit_saved pl (fold (emit pl) ds (Diagnostic_context_init False, os))) =
        snd (fold (emit pl) ds (Diagnostic_context_init False, os))"
    by (simp add: fold_emit_unsuppressed init emit_saved_def)
  show ?thesis
    using sup unsup by (simp add: emit_saved_def fold_write_diag)
qed

theorem emit_saved_replays_in_order_witness:
  "snd (emit_saved (\<lambda>n. ''f'')
          (\<lparr>vec = [\<lparr>kind = error_diag, loc = 1::nat, msg = ''a''\<rparr>,
                   \<lparr>kind = note_diag, loc = 2, msg = ''b''\<rparr>],
            suppress_flag = True, errs = 1\<rparr>, ''''))
     = ''error:f: a'' @ [CHR 0x0A] @ ''note:f: b'' @ [CHR 0x0A]
   \<and> emit_saved (\<lambda>n. ''f'')
          (\<lparr>vec = [\<lparr>kind = error_diag, loc = 1::nat, msg = ''a''\<rparr>],
            suppress_flag = False, errs = 1\<rparr>, ''x'')
     = (\<lparr>vec = [\<lparr>kind = error_diag, loc = 1::nat, msg = ''a''\<rparr>],
            suppress_flag = False, errs = 1\<rparr>, ''x'')"
  using
    emit_saved_replays_in_order [of "\<lambda>n. ''f''"
      "\<lparr>vec = [\<lparr>kind = error_diag, loc = 1::nat, msg = ''a''\<rparr>,
               \<lparr>kind = note_diag, loc = 2, msg = ''b''\<rparr>],
        suppress_flag = True, errs = 1\<rparr>" "''''" "[]"]
    emit_saved_replays_in_order [of "\<lambda>n. ''f''"
      "\<lparr>vec = [\<lparr>kind = error_diag, loc = 1::nat, msg = ''a''\<rparr>],
        suppress_flag = False, errs = 1\<rparr>" "''x''" "[]"]
  by (simp add: newline_def print_Diagnostic_def)

subsection \<open>Resetting a context\<close>

lemma world_heap_triv:
  "heap w p = Some c \<Longrightarrow> w\<lparr>heap := (heap w)(p \<mapsto> c), cerr := cerr w\<rparr> = w"
  by (simp add: map_upd_triv)

text \<open>
  Claim C4. After \<open>reset()\<close> the error counter is 0, the stored sequence is empty, so
  that a replay writes nothing, and the suppression mode is what it was. For the context
  on top of the stack: after \<open>reset_diagnostics\<close>, \<open>error_count\<close> yields 0 and
  \<open>emit_diagnostics\<close> changes nothing.
\<close>

theorem reset_clears:
  "errs (reset c) = 0
   \<and> errors (reset c) = 0
   \<and> vec (reset c) = []
   \<and> suppress_flag (reset c) = suppress_flag c
   \<and> emit_saved pl (reset c, os) = (reset c, os)
   \<and> (top_context w = Some (p, c) \<longrightarrow>
        (\<exists>w'. reset_diagnostics w = Some w' \<and> error_count w' = Some 0 \<and>
           emit_diagnostics pl w' = Some w' \<and> top_context w' = Some (p, reset c) \<and>
           cerr w' = cerr w \<and> diags w' = diags w))"
proof -
  have obj: "errs (reset c) = 0" "errors (reset c) = 0" "vec (reset c) = []"
    "suppress_flag (reset c) = suppress_flag c"
    by (simp_all add: errors_def reset_def)
  have replay: "emit_saved pl (reset c, os) = (reset c, os)" for os
    by (simp add: emit_saved_def reset_def)
  have top: "\<exists>w'. reset_diagnostics w = Some w' \<and> error_count w' = Some 0 \<and>
           emit_diagnostics pl w' = Some w' \<and> top_context w' = Some (p, reset c) \<and>
           cerr w' = cerr w \<and> diags w' = diags w" if t: "top_context w = Some (p, c)"
  proof -
    let ?w = "w\<lparr>heap := (heap w)(p \<mapsto> reset c)\<rparr>"
    have r: "reset_diagnostics w = Some ?w"
      using t by (simp add: reset_diagnostics_def)
    have t': "top_context ?w = Some (p, reset c)"
      using t by (auto simp: top_context_def split: list.splits option.splits)
    have e: "error_count ?w = Some 0"
      using t' obj by (simp add: error_count_def)
    have "heap ?w p = Some (reset c)" by simp
    from world_heap_triv [OF this]
    have "emit_diagnostics pl ?w = Some ?w"
      using t' replay [of "cerr w"] by (simp add: emit_diagnostics_def)
    with r t' e show ?thesis by simp
  qed
  show ?thesis using obj replay top by simp
qed

theorem reset_clears_witness:
  "top_context
     \<lparr>diags = [5::nat],
      heap = [5 \<mapsto> \<lparr>vec = [\<lparr>kind = error_diag, loc = 1::nat, msg = ''a''\<rparr>],
                      suppress_flag = True, errs = 1\<rparr>],
      cerr = '''', root_done = True\<rparr>
     = Some (5, \<lparr>vec = [\<lparr>kind = error_diag, loc = 1::nat, msg = ''a''\<rparr>],
                  suppress_flag = True, errs = 1\<rparr>)
   \<and> Option.bind
        (reset_diagnostics
          \<lparr>diags = [5::nat],
           heap = [5 \<mapsto> \<lparr>vec = [\<lparr>kind = error_diag, loc = 1::nat, msg = ''a''\<rparr>],
                      suppress_flag = True, errs = 1\<rparr>],
           cerr = '''', root_done = True\<rparr>)
        error_count = Some 0"
proof -
  let ?c = "\<lparr>vec = [\<lparr>kind = error_diag, loc = 1::nat, msg = ''a''\<rparr>],
              suppress_flag = True, errs = 1\<rparr>"
  let ?w = "\<lparr>diags = [5::nat], heap = [5 \<mapsto> ?c], cerr = '''', root_done = True\<rparr>"
  have t: "top_context ?w = Some (5, ?c)"
    by (simp add: top_context_def)
  from reset_clears [where c = ?c and w = ?w and p = 5 and pl = "\<lambda>n. ''f''"] t
  obtain w' where "reset_diagnostics ?w = Some w'" "error_count w' = Some 0"
    by blast
  with t show ?thesis by simp
qed

subsection \<open>Construction and destruction\<close>

lemma run_append:
  "run (es @ fs) w log =
     (case run es w log of None \<Rightarrow> None | Some (w', log') \<Rightarrow> run fs w' log')"
proof (induction es arbitrary: w log)
  case Nil
  show ?case by simp
next
  case (Cons e es)
  show ?case
    by (cases e) (simp_all add: Cons.IH split: list.splits option.splits)
qed

lemma destroyed_append: "destroyed (es @ fs) = destroyed es @ destroyed fs"
proof (induction es)
  case Nil
  show ?case by simp
next
  case (Cons e es)
  then show ?case by (cases e) simp_all
qed

lemma own_pops_append: "own_pops (es @ fs) = own_pops es @ own_pops fs"
  by (simp add: own_pops_def destroyed_append)

lemma run_blocks:
  assumes "\<And>x (w :: 'l world) log. x \<in> set scs \<Longrightarrow>
      \<exists>w'. run (events x) w log = Some (w', log @ own_pops (events x)) \<and> diags w' = diags w"
  shows "\<exists>w'. run (concat (map events scs)) (w :: 'l world) log =
           Some (w', log @ own_pops (concat (map events scs))) \<and> diags w' = diags w"
  using assms
proof (induction scs arbitrary: w log)
  case Nil
  show ?case by (simp add: own_pops_def)
next
  case (Cons sc scs)
  from Cons.prems [of sc w log]
  obtain w1 where 1: "run (events sc) w log = Some (w1, log @ own_pops (events sc))"
    and d1: "diags w1 = diags w"
    by auto
  have "\<exists>w'. run (concat (map events scs)) w1 (log @ own_pops (events sc)) =
           Some (w', (log @ own_pops (events sc)) @ own_pops (concat (map events scs)))
           \<and> diags w' = diags w1"
    by (rule Cons.IH) (simp add: Cons.prems)
  then obtain w' where
    2: "run (concat (map events scs)) w1 (log @ own_pops (events sc)) =
           Some (w', (log @ own_pops (events sc)) @ own_pops (concat (map events scs)))"
    and d2: "diags w' = diags w1"
    by blast
  have "run (concat (map events (sc # scs))) w log =
      Some (w', log @ own_pops (concat (map events (sc # scs))))"
    using 1 2 by (simp add: run_append own_pops_append)
  with d1 d2 show ?case by simp
qed

lemma run_scope:
  "\<exists>w'. run (events sc) w log = Some (w', log @ own_pops (events sc)) \<and> diags w' = diags w"
proof (induction sc arbitrary: w log)
  case (Scope a s inner)
  let ?body = "concat (map events inner)"
  let ?w0 = "Diagnostic_context_ctor a s w"
  from run_blocks [of inner ?w0 log] Scope.IH
  obtain w1 where 1: "run ?body ?w0 log = Some (w1, log @ own_pops ?body)"
    and d1: "diags w1 = diags ?w0"
    by blast
  have d1': "diags w1 = a # diags w"
    using d1 by (simp add: Diagnostic_context_ctor_def)
  let ?w2 = "w1\<lparr>diags := diags w, heap := (heap w1)(a := None)\<rparr>"
  have 2: "run [Destroy a] w1 (log @ own_pops ?body) =
      Some (?w2, (log @ own_pops ?body) @ [(a, a)])"
    using d1' by (simp add: Diagnostic_context_dtor_def)
  have "run (events (Scope a s inner)) w log = run (?body @ [Destroy a]) ?w0 log"
    by simp
  also have "\<dots> = Some (?w2, (log @ own_pops ?body) @ [(a, a)])"
    using 1 2 by (simp only: run_append option.case prod.case)
  also have "(log @ own_pops ?body) @ [(a, a)] = log @ own_pops (events (Scope a s inner))"
    by (simp add: own_pops_def destroyed_append)
  finally show ?case by auto
qed

text \<open>
  Claim C5. The constructor pushes the new context, which is then the top context that
  the reporting functions write to. Constructing \<open>a\<close> and destroying it, or constructing
  \<open>a\<close> then \<open>b\<close> and destroying \<open>b\<close> then \<open>a\<close>, leaves the stack as it was. For every
  block, and every sequence of blocks, of properly nested scopes: the run is defined,
  every destructor pops the pointer to its own object (the log pairs each destroyed
  object with itself), and the stack at the end is the stack at the start.
\<close>

theorem contexts_nest:
  "diags (Diagnostic_context_ctor a s w) = a # diags w
   \<and> top_context (Diagnostic_context_ctor a s w) = Some (a, Diagnostic_context_init s)
   \<and> map_option (\<lambda>w'. heap w' a) (emit_top pl diag (Diagnostic_context_ctor a s w)) =
        Some (Some (fst (emit pl diag (Diagnostic_context_init s, cerr w))))
   \<and> map_option diags (Diagnostic_context_dtor a (Diagnostic_context_ctor a s w)) =
        Some (diags w)
   \<and> map_option diags
        (Option.bind
           (Diagnostic_context_dtor b
              (Diagnostic_context_ctor b sb (Diagnostic_context_ctor a s w)))
           (Diagnostic_context_dtor a)) = Some (diags w)
   \<and> (\<exists>w'. run (events sc) w [] = Some (w', map (\<lambda>a. (a, a)) (destroyed (events sc))) \<and>
          diags w' = diags w)
   \<and> (\<exists>w'. run (concat (map events scs)) w [] =
              Some (w', map (\<lambda>a. (a, a)) (destroyed (concat (map events scs)))) \<and>
          diags w' = diags w)"
proof -
  have top: "top_context (Diagnostic_context_ctor a s w) = Some (a, Diagnostic_context_init s)"
    by (simp add: top_context_def Diagnostic_context_ctor_def)
  have rep: "map_option (\<lambda>w'. heap w' a) (emit_top pl diag (Diagnostic_context_ctor a s w)) =
        Some (Some (fst (emit pl diag (Diagnostic_context_init s, cerr w))))"
    using top
    by (simp add: emit_top_def Diagnostic_context_ctor_def split: prod.splits)
  have one: "map_option diags (Diagnostic_context_dtor a (Diagnostic_context_ctor a s w)) =
        Some (diags w)"
    by (simp add: Diagnostic_context_dtor_def Diagnostic_context_ctor_def)
  have two: "map_option diags
        (Option.bind
           (Diagnostic_context_dtor b
              (Diagnostic_context_ctor b sb (Diagnostic_context_ctor a s w)))
           (Diagnostic_context_dtor a)) = Some (diags w)"
    by (simp add: Diagnostic_context_dtor_def Diagnostic_context_ctor_def)
  have sc: "\<exists>w'. run (events sc) w [] = Some (w', map (\<lambda>a. (a, a)) (destroyed (events sc))) \<and>
          diags w' = diags w"
    using run_scope [of sc w "[]"] by (simp add: own_pops_def)
  have scs: "\<exists>w'. run (concat (map events scs)) w [] =
              Some (w', map (\<lambda>a. (a, a)) (destroyed (concat (map events scs)))) \<and>
          diags w' = diags w"
    using run_blocks [OF run_scope, of scs w "[]"] by (simp add: own_pops_def)
  show ?thesis
    using top rep one two sc scs by (simp add: Diagnostic_context_ctor_def)
qed

text \<open>
  The destructor itself does not check the order: destroying the outer context first pops
  the inner one and leaves the pointer to the destroyed outer context on the stack.
\<close>

lemma dtor_out_of_order:
  "map_option diags (Diagnostic_context_dtor (1::nat)
      (Diagnostic_context_ctor 2 False (Diagnostic_context_ctor 1 False
        \<lparr>diags = [], heap = Map.empty :: addr \<rightharpoonup> nat Diagnostic_context, cerr = '''', root_done = False\<rparr>))) = Some [1]"
  by (simp add: Diagnostic_context_dtor_def Diagnostic_context_ctor_def)

subsection \<open>The root context\<close>

lemma init_diagnostics_done: "root_done w \<Longrightarrow> init_diagnostics d w = w"
  by (simp add: init_diagnostics_def)

lemma root_done_init: "root_done (init_diagnostics d w)"
  by (simp add: init_diagnostics_def Diagnostic_context_ctor_def)

lemma funpow_init_diagnostics:
  "(init_diagnostics d ^^ Suc n) w = init_diagnostics d w"
proof (induction n)
  case 0
  show ?case by simp
next
  case (Suc n)
  have "(init_diagnostics d ^^ Suc (Suc n)) w = init_diagnostics d ((init_diagnostics d ^^ Suc n) w)"
    by simp
  also have "\<dots> = init_diagnostics d (init_diagnostics d w)"
    by (simp only: Suc.IH)
  also have "\<dots> = init_diagnostics d w"
    by (simp add: init_diagnostics_done root_done_init)
  finally show ?case .
qed

text \<open>
  Claim C8. The first call of \<open>init_diagnostics\<close> pushes one root context and marks
  it as constructed; a call after that changes nothing, so any number of calls has the
  effect of one. No other operation on the stack or on a context clears the mark, so
  every later call finds it set.
\<close>

theorem init_diagnostics_once:
  "root_done (init_diagnostics d w)
   \<and> (\<not> root_done w \<longrightarrow>
        diags (init_diagnostics d w) = root_ctx # diags w \<and>
        top_context (init_diagnostics d w) = Some (root_ctx, Diagnostic_context_init d))
   \<and> (root_done w \<longrightarrow> init_diagnostics d w = w)
   \<and> init_diagnostics d' (init_diagnostics d w) = init_diagnostics d w
   \<and> (init_diagnostics d ^^ Suc n) w = init_diagnostics d w
   \<and> root_done (Diagnostic_context_ctor a s w) = root_done w
   \<and> (\<forall>w'. Diagnostic_context_dtor a w = Some w' \<longrightarrow> root_done w' = root_done w)
   \<and> (\<forall>w'. emit_top pl diag w = Some w' \<longrightarrow> root_done w' = root_done w)
   \<and> (\<forall>w'. emit_diagnostics pl w = Some w' \<longrightarrow> root_done w' = root_done w)
   \<and> (\<forall>w'. reset_diagnostics w = Some w' \<longrightarrow> root_done w' = root_done w)"
proof -
  have first: "diags (init_diagnostics d w) = root_ctx # diags w \<and>
      top_context (init_diagnostics d w) = Some (root_ctx, Diagnostic_context_init d)"
    if "\<not> root_done w"
    using that
    by (simp add: init_diagnostics_def Diagnostic_context_ctor_def top_context_def)
  have again: "init_diagnostics d' (init_diagnostics d w) = init_diagnostics d w"
    by (simp add: init_diagnostics_done root_done_init)
  have ctor: "root_done (Diagnostic_context_ctor a s w) = root_done w"
    by (simp add: Diagnostic_context_ctor_def)
  have dtor: "\<forall>w'. Diagnostic_context_dtor a w = Some w' \<longrightarrow> root_done w' = root_done w"
    by (auto simp: Diagnostic_context_dtor_def split: list.splits)
  have em: "\<forall>w'. emit_top pl diag w = Some w' \<longrightarrow> root_done w' = root_done w"
    by (auto simp: emit_top_def split: option.splits prod.splits)
  have ed: "\<forall>w'. emit_diagnostics pl w = Some w' \<longrightarrow> root_done w' = root_done w"
    by (auto simp: emit_diagnostics_def split: option.splits prod.splits)
  have rs: "\<forall>w'. reset_diagnostics w = Some w' \<longrightarrow> root_done w' = root_done w"
    by (auto simp: reset_diagnostics_def split: option.splits prod.splits)
  show ?thesis
    using root_done_init [of d w] first init_diagnostics_done [of w d] again
      funpow_init_diagnostics [where d = d and n = n and w = w] ctor dtor em ed rs
    by blast
qed

theorem init_diagnostics_once_witness:
  "\<not> root_done
       \<lparr>diags = [], heap = (Map.empty :: addr \<rightharpoonup> nat Diagnostic_context), cerr = '''',
        root_done = False\<rparr>
   \<and> init_diagnostics False
       \<lparr>diags = [], heap = (Map.empty :: addr \<rightharpoonup> nat Diagnostic_context), cerr = '''',
        root_done = False\<rparr>
     = \<lparr>diags = [root_ctx],
        heap = [root_ctx \<mapsto> \<lparr>vec = [], suppress_flag = False, errs = 0\<rparr>],
        cerr = '''', root_done = True\<rparr>
   \<and> init_diagnostics False
       \<lparr>diags = [root_ctx],
        heap = [root_ctx \<mapsto> \<lparr>vec = ([] :: nat Diagnostic list), suppress_flag = False, errs = 0\<rparr>],
        cerr = '''', root_done = True\<rparr>
     = \<lparr>diags = [root_ctx],
        heap = [root_ctx \<mapsto> \<lparr>vec = [], suppress_flag = False, errs = 0\<rparr>],
        cerr = '''', root_done = True\<rparr>
   \<and> map_option root_done
       (Diagnostic_context_dtor 4
         (Diagnostic_context_ctor 4 True
           \<lparr>diags = [root_ctx],
            heap = [root_ctx \<mapsto> \<lparr>vec = ([] :: nat Diagnostic list), suppress_flag = False, errs = 0\<rparr>],
            cerr = '''', root_done = True\<rparr>)) = Some True
   \<and> map_option root_done
       (emit_top (\<lambda>n. ''f'') \<lparr>kind = error_diag, loc = 1, msg = ''a''\<rparr>
         \<lparr>diags = [root_ctx],
          heap = [root_ctx \<mapsto> \<lparr>vec = ([] :: nat Diagnostic list), suppress_flag = False, errs = 0\<rparr>],
          cerr = '''', root_done = True\<rparr>) = Some True
   \<and> map_option root_done
       (emit_diagnostics (\<lambda>n. ''f'')
         \<lparr>diags = [root_ctx],
          heap = [root_ctx \<mapsto> \<lparr>vec = ([] :: nat Diagnostic list), suppress_flag = False, errs = 0\<rparr>],
          cerr = '''', root_done = True\<rparr>) = Some True
   \<and> map_option root_done
       (reset_diagnostics
         \<lparr>diags = [root_ctx],
          heap = [root_ctx \<mapsto> \<lparr>vec = ([] :: nat Diagnostic list), suppress_flag = False, errs = 0\<rparr>],
          cerr = '''', root_done = True\<rparr>) = Some True"
proof -
  let ?w0 = "\<lparr>diags = [], heap = (Map.empty :: addr \<rightharpoonup> nat Diagnostic_context), cerr = '''',
        root_done = False\<rparr>"
  let ?w1 = "\<lparr>diags = [root_ctx],
        heap = [root_ctx \<mapsto> \<lparr>vec = ([] :: nat Diagnostic list), suppress_flag = False, errs = 0\<rparr>],
        cerr = '''', root_done = True\<rparr>"
  let ?d = "\<lparr>kind = error_diag, loc = 1::nat, msg = ''a''\<rparr>"
  have first: "init_diagnostics False ?w0 = ?w1"
    by (simp add: init_diagnostics_def Diagnostic_context_ctor_def Diagnostic_context_init_def)
  have top: "top_context ?w1 = Some (root_ctx, \<lparr>vec = [], suppress_flag = False, errs = 0\<rparr>)"
    by (simp add: top_context_def)
  have dtor: "\<exists>w'. Diagnostic_context_dtor 4 (Diagnostic_context_ctor 4 True ?w1) = Some w'"
    by (simp add: Diagnostic_context_dtor_def Diagnostic_context_ctor_def)
  have em: "\<exists>w'. emit_top (\<lambda>n. ''f'') ?d ?w1 = Some w'"
    using top by (simp add: emit_top_def split: prod.splits)
  have ed: "\<exists>w'. emit_diagnostics (\<lambda>n. ''f'') ?w1 = Some w'"
    using top by (simp add: emit_diagnostics_def split: prod.splits)
  have rs: "\<exists>w'. reset_diagnostics ?w1 = Some w'"
    using top by (simp add: reset_diagnostics_def)
  show ?thesis
    using first dtor em ed rs
      init_diagnostics_once [where w = ?w0 and d = False]
      init_diagnostics_once [where w = ?w1 and d = False and pl = "\<lambda>n. ''f''" and diag = ?d]
      init_diagnostics_once [where w = "Diagnostic_context_ctor 4 True ?w1" and a = 4]
    by (auto simp: Diagnostic_context_ctor_def)
qed

section \<open>Properties of tokens and token streams\<close>

text \<open>
  Claim C10. \<open>is_integer(k)\<close> holds exactly for the kinds from \<open>binary_integer_tok\<close>
  to \<open>hexadecimal_integer_tok\<close>, which are 52, 53, 54 and 55; \<open>is_integer\<close> of a token
  is \<open>is_integer\<close> of its kind; it is false for the error kind, every punctuation kind,
  the identifier kind and the boolean kind.
\<close>

theorem is_integer_iff:
  "(is_integer k \<longleftrightarrow> binary_integer_tok \<le> k \<and> k \<le> hexadecimal_integer_tok)
   \<and> (is_integer k \<longleftrightarrow> k \<in> {52, 53, 54, 55})
   \<and> (is_integer k \<longleftrightarrow>
        k \<in> {binary_integer_tok, decimal_integer_tok, octal_integer_tok,
             hexadecimal_integer_tok})
   \<and> (is_integer_Token t \<longleftrightarrow> is_integer (Token_kind_of t))
   \<and> \<not> is_integer error_tok
   \<and> list_all (\<lambda>p. \<not> is_integer p) punctuation_toks
   \<and> \<not> is_integer identifier_tok
   \<and> \<not> is_integer boolean_tok"
proof -
  have range: "is_integer k \<longleftrightarrow> 52 \<le> k \<and> k \<le> 55" for k
    by (simp add: is_integer_def binary_integer_tok_def hexadecimal_integer_tok_def)
  have set: "(52 \<le> k \<and> k \<le> 55) \<longleftrightarrow> k \<in> {52, 53, 54, 55}" for k :: int
    by auto
  have punct: "list_all (\<lambda>p. \<not> is_integer p) punctuation_toks"
    unfolding punctuation_toks_def range
    by (simp add: lparen_tok_def rparen_tok_def lbrace_tok_def rbrace_tok_def
        lbrack_tok_def rbrack_tok_def dot_tok_def comma_tok_def semicolon_tok_def
        colon_tok_def equal_tok_def plus_tok_def minus_tok_def star_tok_def slash_tok_def
        percent_tok_def amp_tok_def bar_tok_def caret_tok_def tilde_tok_def bang_tok_def
        lt_tok_def gt_tok_def minus_gt_tok_def eq_gt_tok_def lt_lt_tok_def gt_gt_tok_def
        eq_eq_tok_def bang_eq_tok_def lt_eq_tok_def gt_eq_tok_def amp_amp_tok_def
        bar_bar_tok_def dot_dot_tok_def)
  show ?thesis
    using punct set [of k]
    by (simp add: range is_integer_Token_def binary_integer_tok_def
        decimal_integer_tok_def octal_integer_tok_def hexadecimal_integer_tok_def
        error_tok_def identifier_tok_def boolean_tok_def)
qed

text \<open>
  Claim C6. A default-constructed token has the kind \<open>error_tok\<close> and converts to
  false; a token converts to true exactly when its kind is not \<open>error_tok\<close>, whatever
  its location and symbol.
\<close>

theorem Token_truthy_iff:
  "Token_kind_of (Token_default l0) = error_tok
   \<and> \<not> Token_bool (Token_default l0)
   \<and> (Token_bool t \<longleftrightarrow> Token_kind_of t \<noteq> error_tok)
   \<and> (Token_bool \<lparr>t_loc = l, t_kind = k, t_sym = y\<rparr> \<longleftrightarrow> k \<noteq> error_tok)"
  by (simp add: Token_default_def Token_bool_def Token_kind_of_def)

text \<open>
  Claim C7. \<open>eof()\<close> holds exactly when the cursor equals the end pointer.
  \<open>location()\<close> is the default location at the end of the stream and otherwise the
  location of the token under the cursor. For a stream over a token list: at the start it
  is the location of the first token (the default location for the empty list), and with
  the cursor \<open>i\<close> tokens into the list it is the location of token \<open>i\<close>, or the default
  location when \<open>i\<close> is the length of the list.
\<close>

theorem Token_stream_eof_location:
  "(eof ts \<longleftrightarrow> first_p ts = last_p ts)
   \<and> Token_stream_location l0 mem ts =
       (if first_p ts = last_p ts then Some l0
        else map_option Token_location (mem (first_p ts)))
   \<and> (eof (Token_stream_of_list data toks) \<longleftrightarrow> toks = [])
   \<and> Token_stream_location l0 (vector_mem data toks) (Token_stream_of_list data toks) =
       Some (case toks of [] \<Rightarrow> l0 | t # rest \<Rightarrow> Token_location t)
   \<and> (i \<le> length toks \<longrightarrow>
        (eof (Token_stream_ctor (data + i) (data + length toks)) \<longleftrightarrow> i = length toks) \<and>
        Token_stream_location l0 (vector_mem data toks)
          (Token_stream_ctor (data + i) (data + length toks)) =
        Some (if i = length toks then l0 else Token_location (toks ! i)))"
proof -
  have gen: "Token_stream_location l0 mem ts =
       (if first_p ts = last_p ts then Some l0
        else map_option Token_location (mem (first_p ts)))"
    by (simp add: Token_stream_location_def peek_def eof_def)
  have at: "Token_stream_location l0 (vector_mem data toks)
          (Token_stream_ctor (data + i) (data + length toks)) =
        Some (if i = length toks then l0 else Token_location (toks ! i))"
    if "i \<le> length toks" for i
    using that
    by (simp add: Token_stream_location_def peek_def eof_def Token_stream_ctor_def
        vector_mem_def)
  have start: "Token_stream_location l0 (vector_mem data toks) (Token_stream_of_list data toks) =
       Some (case toks of [] \<Rightarrow> l0 | t # rest \<Rightarrow> Token_location t)"
    using at [of 0] by (cases toks) (simp_all add: Token_stream_of_list_def)
  have e: "eof (Token_stream_of_list data toks) \<longleftrightarrow> toks = []"
    by (simp add: eof_def Token_stream_of_list_def Token_stream_ctor_def)
  have e': "eof (Token_stream_ctor (data + i) (data + length toks)) \<longleftrightarrow> i = length toks"
    by (simp add: eof_def Token_stream_ctor_def)
  show ?thesis
    using gen at [of i] start e e' by (simp add: eof_def)
qed

theorem Token_stream_eof_location_witness:
  "(1::nat) \<le> length [\<lparr>t_loc = 7::nat, t_kind = identifier_tok, t_sym = Some 1\<rparr>,
                       \<lparr>t_loc = 8, t_kind = semicolon_tok, t_sym = Some 2\<rparr>]
   \<and> \<not> eof (Token_stream_ctor (10 + 1)
        (10 + length [\<lparr>t_loc = 7::nat, t_kind = identifier_tok, t_sym = Some 1\<rparr>,
                      \<lparr>t_loc = 8, t_kind = semicolon_tok, t_sym = Some 2\<rparr>]))
   \<and> Token_stream_location 0
        (vector_mem 10 [\<lparr>t_loc = 7::nat, t_kind = identifier_tok, t_sym = Some 1\<rparr>,
                        \<lparr>t_loc = 8, t_kind = semicolon_tok, t_sym = Some 2\<rparr>])
        (Token_stream_ctor (10 + 1)
          (10 + length [\<lparr>t_loc = 7::nat, t_kind = identifier_tok, t_sym = Some 1\<rparr>,
                        \<lparr>t_loc = 8, t_kind = semicolon_tok, t_sym = Some 2\<rparr>])) = Some 8
   \<and> eof (Token_stream_ctor (10 + 2)
        (10 + length [\<lparr>t_loc = 7::nat, t_kind = identifier_tok, t_sym = Some 1\<rparr>,
                      \<lparr>t_loc = 8, t_kind = semicolon_tok, t_sym = Some 2\<rparr>]))
   \<and> Token_stream_location 0
        (vector_mem 10 [\<lparr>t_loc = 7::nat, t_kind = identifier_tok, t_sym = Some 1\<rparr>,
                        \<lparr>t_loc = 8, t_kind = semicolon_tok, t_sym = Some 2\<rparr>])
        (Token_stream_ctor (10 + 2)
          (10 + length [\<lparr>t_loc = 7::nat, t_kind = identifier_tok, t_sym = Some 1\<rparr>,
                        \<lparr>t_loc = 8, t_kind = semicolon_tok, t_sym = Some 2\<rparr>])) = Some 0"
proof -
  let ?toks = "[\<lparr>t_loc = 7::nat, t_kind = identifier_tok, t_sym = Some 1\<rparr>,
                \<lparr>t_loc = 8, t_kind = semicolon_tok, t_sym = Some 2\<rparr>]"
  have len: "length ?toks = 2" by simp
  show ?thesis
    using
      Token_stream_eof_location [of "Token_stream_ctor 11 12" 0 "vector_mem 10 ?toks" 10 ?toks 1]
      Token_stream_eof_location [of "Token_stream_ctor 12 12" 0 "vector_mem 10 ?toks" 10 ?toks 2]
    by (simp add: Token_location_def Token_stream_ctor_def vector_mem_def eof_def)
qed

end
